theory Spec2Isabelle
  imports Complex_Main "HOL-Library.AList"
begin

section \<open>JavaScript values\<close>

text \<open>
  The handlers of \<^verbatim>\<open>src/grpcServer.js\<close> work on untyped JavaScript data: the request, the
  records returned by the shop and product services and the object literals handed to the
  callback. They are embedded as one datatype of plain data. An object is the list of its
  own properties in insertion order.

  A number is a finite value, NaN or an infinity. Every double is a rational number, so the
  finite values are taken from \<open>rat\<close>; zero stands for both zeros, which the handlers do
  not distinguish.
\<close>

datatype number = Finite rat | NaN | PosInfinity | NegInfinity

datatype jsval =
    JUndefined
  | JNull
  | JBool bool
  | JNum number
  | JStr string
  | JArr "jsval list"
  | JObj "(string \<times> jsval) list"

text \<open>ToBoolean: what \<^verbatim>\<open>!v\<close>, \<^verbatim>\<open>v || d\<close>, \<^verbatim>\<open>v && w\<close> and \<^verbatim>\<open>v ? a : b\<close> test.\<close>

fun truthy :: "jsval \<Rightarrow> bool" where
  "truthy JUndefined = False"
| "truthy JNull = False"
| "truthy (JBool b) = b"
| "truthy (JNum x) = (x \<noteq> NaN \<and> x \<noteq> Finite 0)"
| "truthy (JStr s) = (s \<noteq> [])"
| "truthy (JArr xs) = True"
| "truthy (JObj kvs) = True"

text \<open>\<^verbatim>\<open>a || b\<close>\<close>

definition js_or :: "jsval \<Rightarrow> jsval \<Rightarrow> jsval" where
  "js_or a b = (if truthy a then a else b)"

text \<open>\<^verbatim>\<open>typeof v\<close>\<close>

fun typeof :: "jsval \<Rightarrow> string" where
  "typeof JUndefined = ''undefined''"
| "typeof JNull = ''object''"
| "typeof (JBool b) = ''boolean''"
| "typeof (JNum x) = ''number''"
| "typeof (JStr s) = ''string''"
| "typeof (JArr xs) = ''object''"
| "typeof (JObj kvs) = ''object''"

text \<open>
  Reading a property \<^verbatim>\<open>v.k\<close> of a value that is not \<^verbatim>\<open>null\<close> or \<^verbatim>\<open>undefined\<close>: an own
  property of an object, and \<^verbatim>\<open>undefined\<close> otherwise (the names the handlers read are not
  properties of strings, arrays, numbers or booleans).
\<close>

fun getProp :: "jsval \<Rightarrow> string \<Rightarrow> jsval" where
  "getProp (JObj kvs) k = (case map_of kvs k of Some v \<Rightarrow> v | None \<Rightarrow> JUndefined)"
| "getProp v k = JUndefined"

section \<open>Stringification\<close>

text \<open>The decimal digits of a natural number, most significant first.\<close>

fun digits :: "nat \<Rightarrow> string" where
  "digits n = (if n < 10 then [''0123456789'' ! n]
               else digits (n div 10) @ [''0123456789'' ! (n mod 10)])"

declare digits.simps [simp del]

text \<open>The decimal text of an integer.\<close>

definition int_digits :: "int \<Rightarrow> string" where
  "int_digits n = (if n < 0 then ''-'' @ digits (nat (- n)) else digits (nat n))"

text \<open>\<^verbatim>\<open>Number.isSafeInteger\<close> on a finite number.\<close>

definition is_safe_integer :: "rat \<Rightarrow> bool" where
  "is_safe_integer q = (of_int \<lfloor>q\<rfloor> = q \<and> \<bar>q\<bar> < 2 ^ 53)"

text \<open>
  Number to string, as \<^verbatim>\<open>String\<close>, a template literal and \<^verbatim>\<open>JSON.stringify\<close> apply it.
  A safe integer is written by its decimal digits. For every other finite number (a
  fraction, or a magnitude from \<open>2\<^sup>5\<^sup>3\<close> on, where the language prints the shortest
  digits that read back as the same double, in exponent form from \<open>10\<^sup>2\<^sup>1\<close> on) the text is
  that of the language's own algorithm, which is taken as the parameter \<open>ts\<close>.
\<close>

fun num_String :: "(rat \<Rightarrow> string) \<Rightarrow> number \<Rightarrow> string" where
  "num_String ts (Finite q) = (if is_safe_integer q then int_digits \<lfloor>q\<rfloor> else ts q)"
| "num_String ts NaN = ''NaN''"
| "num_String ts PosInfinity = ''Infinity''"
| "num_String ts NegInfinity = ''-Infinity''"

text \<open>\<^verbatim>\<open>Array.prototype.join\<close> on strings.\<close>

fun join :: "string \<Rightarrow> string list \<Rightarrow> string" where
  "join sep [] = []"
| "join sep [s] = s"
| "join sep (s # t # ts) = s @ sep @ join sep (t # ts)"

text \<open>
  \<^verbatim>\<open>String(v)\<close>, which is also what a template literal \<^verbatim>\<open>${v}\<close> inserts. An array is the
  join of its elements by a comma, \<^verbatim>\<open>null\<close> and \<^verbatim>\<open>undefined\<close> elements being empty.
\<close>

fun js_String :: "(rat \<Rightarrow> string) \<Rightarrow> jsval \<Rightarrow> string"
  and js_Strings :: "(rat \<Rightarrow> string) \<Rightarrow> jsval list \<Rightarrow> string list" where
  "js_String ts JUndefined = ''undefined''"
| "js_String ts JNull = ''null''"
| "js_String ts (JBool b) = (if b then ''true'' else ''false'')"
| "js_String ts (JNum x) = num_String ts x"
| "js_String ts (JStr s) = s"
| "js_String ts (JArr xs) = join '','' (js_Strings ts xs)"
| "js_String ts (JObj kvs) = ''[object Object]''"
| "js_Strings ts [] = []"
| "js_Strings ts (x # xs) =
     (if x = JUndefined \<or> x = JNull then [] else js_String ts x) # js_Strings ts xs"

text \<open>
  The quoting of a string by \<^verbatim>\<open>JSON.stringify\<close>: the double quote and the backslash are
  escaped, a control character is written by its short escape or as \<^verbatim>\<open>\u00XX\<close>.
\<close>

definition json_escape :: "char \<Rightarrow> string" where
  "json_escape c =
     (if c = CHR 0x22 then [CHR 0x5C, CHR 0x22]
      else if c = CHR 0x5C then [CHR 0x5C, CHR 0x5C]
      else if c = CHR 0x08 then [CHR 0x5C, CHR ''b'']
      else if c = CHR 0x0C then [CHR 0x5C, CHR ''f'']
      else if c = CHR 0x0A then [CHR 0x5C, CHR ''n'']
      else if c = CHR 0x0D then [CHR 0x5C, CHR ''r'']
      else if c = CHR 0x09 then [CHR 0x5C, CHR ''t'']
      else if (of_char c :: nat) < 32
        then [CHR 0x5C, CHR ''u'', CHR ''0'', CHR ''0'',
              ''0123456789abcdef'' ! (of_char c div 16), ''0123456789abcdef'' ! (of_char c mod 16)]
      else [c])"

definition json_quote :: "string \<Rightarrow> string" where
  "json_quote s = [CHR 0x22] @ concat (map json_escape s) @ [CHR 0x22]"

text \<open>
  The text \<^verbatim>\<open>JSON.stringify\<close> produces for a value, \<open>None\<close> where it produces
  \<^verbatim>\<open>undefined\<close>: an \<^verbatim>\<open>undefined\<close> array element is written \<^verbatim>\<open>null\<close>, a property whose
  value is \<^verbatim>\<open>undefined\<close> is left out, NaN and the infinities are \<^verbatim>\<open>null\<close>.
\<close>

fun json_number :: "(rat \<Rightarrow> string) \<Rightarrow> number \<Rightarrow> string" where
  "json_number ts (Finite q) = num_String ts (Finite q)"
| "json_number ts x = ''null''"

fun json_ser :: "(rat \<Rightarrow> string) \<Rightarrow> jsval \<Rightarrow> string option"
  and json_elems :: "(rat \<Rightarrow> string) \<Rightarrow> jsval list \<Rightarrow> string list"
  and json_props :: "(rat \<Rightarrow> string) \<Rightarrow> (string \<times> jsval) list \<Rightarrow> string list" where
  "json_ser ts JUndefined = None"
| "json_ser ts JNull = Some ''null''"
| "json_ser ts (JBool b) = Some (if b then ''true'' else ''false'')"
| "json_ser ts (JNum x) = Some (json_number ts x)"
| "json_ser ts (JStr s) = Some (json_quote s)"
| "json_ser ts (JArr xs) = Some (''['' @ join '','' (json_elems ts xs) @ '']'')"
| "json_ser ts (JObj kvs) = Some (''{'' @ join '','' (json_props ts kvs) @ ''}'')"
| "json_elems ts [] = []"
| "json_elems ts (x # xs) =
     (case json_ser ts x of None \<Rightarrow> ''null'' | Some s \<Rightarrow> s) # json_elems ts xs"
| "json_props ts [] = []"
| "json_props ts ((k, v) # kvs) =
     (case json_ser ts v of
        None \<Rightarrow> json_props ts kvs
      | Some s \<Rightarrow> (json_quote k @ '':'' @ s) # json_props ts kvs)"

text \<open>\<^verbatim>\<open>JSON.stringify(v)\<close>\<close>

definition JSON_stringify :: "(rat \<Rightarrow> string) \<Rightarrow> jsval \<Rightarrow> jsval" where
  "JSON_stringify ts v = (case json_ser ts v of None \<Rightarrow> JUndefined | Some s \<Rightarrow> JStr s)"

text \<open>
  \<^verbatim>\<open>Object.entries(v)\<close> for an object (its properties) and an array (its elements under
  their indices); the handler calls it on no other value.
\<close>

fun index_entries :: "nat \<Rightarrow> jsval list \<Rightarrow> (string \<times> jsval) list" where
  "index_entries i [] = []"
| "index_entries i (x # xs) = (digits i, x) # index_entries (Suc i) xs"

fun Object_entries :: "jsval \<Rightarrow> (string \<times> jsval) list" where
  "Object_entries (JObj kvs) = kvs"
| "Object_entries (JArr xs) = index_entries 0 xs"
| "Object_entries v = []"

section \<open>Environment resolution\<close>

text \<open>
  The metadata of a call is read through \<^verbatim>\<open>metadata.get(key)\<close> only, which yields the array
  of the values stored under the key. The metadata is embedded as that function: \<open>None\<close>
  is a result that is not an array (\<^verbatim>\<open>undefined\<close>), \<open>Some vs\<close> the array \<open>vs\<close>.
\<close>

type_synonym metadata = "string \<rightharpoonup> string list"

record call =
  request :: "(string \<times> jsval) list"
  metadata :: metadata

text \<open>\<^verbatim>\<open>!envHeader || envHeader.length === 0\<close>\<close>

fun no_values :: "string list option \<Rightarrow> bool" where
  "no_values None = True"
| "no_values (Some vs) = (length vs = 0)"

text \<open>\<^verbatim>\<open>envHeader && envHeader.length > 0 ? envHeader[0] : null\<close>\<close>

fun first_value :: "string list option \<Rightarrow> string option" where
  "first_value None = None"
| "first_value (Some []) = None"
| "first_value (Some (v # vs)) = Some v"

definition getEnvironmentFromMetadata :: "call \<Rightarrow> string" where
  "getEnvironmentFromMetadata c =
     (let envHeader = metadata c ''env'';
          envHeader = (if no_values envHeader then metadata c ''x-environment'' else envHeader);
          env = first_value envHeader
      in case env of
           None \<Rightarrow> ''demo''
         | Some e \<Rightarrow> if e = ''prod'' \<or> e = ''master'' then e else ''demo'')"

text \<open>
  The resolution as the specification words it, for comparison: the key \<^verbatim>\<open>env\<close> is read
  first; when it is absent or its value is empty, the key \<^verbatim>\<open>x-environment\<close> is read
  instead; the selected value passes through when it is \<^verbatim>\<open>prod\<close> or \<^verbatim>\<open>master\<close> and
  everything else is \<^verbatim>\<open>demo\<close>.
\<close>

definition spec_normalize :: "string option \<Rightarrow> string" where
  "spec_normalize v = (if v = Some ''prod'' then ''prod''
                       else if v = Some ''master'' then ''master'' else ''demo'')"

definition spec_resolveEnvironment :: "metadata \<Rightarrow> string" where
  "spec_resolveEnvironment md =
     (let primary = first_value (md ''env'')
      in if primary = None \<or> primary = Some '''' then spec_normalize (first_value (md ''x-environment''))
         else spec_normalize primary)"

section \<open>Collaborators, effects and replies\<close>

text \<open>
  \<^verbatim>\<open>shopService.getShopById\<close> and \<^verbatim>\<open>productService.getProductById2\<close> are awaited: a
  lookup either yields a value (a record, or a falsy value when there is none) or throws.
  What is thrown is a value like any other: an error object is an object with a
  \<^verbatim>\<open>message\<close>, and nothing in the language keeps a lookup from throwing, or rejecting
  with, a string or \<^verbatim>\<open>null\<close>.
\<close>

datatype outcome = Returns jsval | Throws jsval

text \<open>
  What a handler can observe outside its arguments: the two lookups, the conversion
  \<^verbatim>\<open>new Date(v).getTime()\<close> (milliseconds, \<open>None\<close> for NaN), the text of the numbers
  that are not safe integers (the parameter of \<open>num_String\<close>) and the clock
  \<^verbatim>\<open>Date.now()\<close> in milliseconds.
\<close>

record world =
  getShopById :: "string \<Rightarrow> jsval \<Rightarrow> outcome"
  getProductById2 :: "string \<Rightarrow> jsval \<Rightarrow> jsval \<Rightarrow> outcome"
  date_getTime :: "jsval \<Rightarrow> int option"
  number_toString :: "rat \<Rightarrow> string"
  now :: int

text \<open>What a handler does besides calling back, in the order it does it.\<close>

datatype event =
    ShopLookup string jsval
  | ProductLookup string jsval jsval
  | LogInfo string
  | LogError string jsval

datatype status = INVALID_ARGUMENT | INTERNAL

record rpc_error =
  code :: status
  message :: string

text \<open>
  \<^verbatim>\<open>callback(err)\<close> is \<open>Inl err\<close> and \<^verbatim>\<open>callback(null, response)\<close> is \<open>Inr response\<close>.
  A handler returns what it called back with, \<open>None\<close> when it never calls back, and the
  events it caused.
\<close>

type_synonym reply = "rpc_error + jsval"

text \<open>\<^verbatim>\<open>Math.floor(ms / 1000)\<close>\<close>

fun floor_seconds :: "int option \<Rightarrow> jsval" where
  "floor_seconds None = JNum NaN"
| "floor_seconds (Some ms) = JNum (Finite (of_int (ms div 1000)))"

text \<open>
  The three \<^verbatim>\<open>catch\<close> blocks end alike, in
  \<^verbatim>\<open>callback({code: grpc.status.INTERNAL, message: `Internal error: ${error.message}`})\<close>.
  Reading \<^verbatim>\<open>error.message\<close> of \<^verbatim>\<open>null\<close> or \<^verbatim>\<open>undefined\<close> throws inside the block:
  the promise of the handler rejects and the callback is not called.
\<close>

definition catch_callback :: "(rat \<Rightarrow> string) \<Rightarrow> jsval \<Rightarrow> reply option" where
  "catch_callback ts error =
     (if error = JUndefined \<or> error = JNull then None
      else Some (Inl \<lparr>code = INTERNAL,
                      message = ''Internal error: '' @ js_String ts (getProp error ''message'')\<rparr>))"

section \<open>VerifyStoreAccess\<close>

definition verifyStoreAccess :: "world \<Rightarrow> call \<Rightarrow> reply option \<times> event list" where
  "verifyStoreAccess w c =
     (let project_id = getProp (JObj (request c)) ''project_id'';
          store_id = getProp (JObj (request c)) ''store_id''
      in if \<not> truthy project_id \<or> \<not> truthy store_id
         then (Some (Inl \<lparr>code = INVALID_ARGUMENT,
                          message = ''project_id and store_id are required''\<rparr>), [])
         else
           let ts = number_toString w;
               env = getEnvironmentFromMetadata c;
               info = LogInfo (''Verifying store access: project_id='' @ js_String ts project_id
                        @ '', store_id='' @ js_String ts store_id @ '', env='' @ env)
           in case getShopById w env store_id of
                Throws error \<Rightarrow>
                  (catch_callback ts error,
                   [info, ShopLookup env store_id, LogError ''Error verifying store access:'' error])
              | Returns shop \<Rightarrow>
                  if \<not> truthy shop
                  then (Some (Inr (JObj
                          [(''has_access'', JBool False),
                           (''message'', JStr (''Store '' @ js_String ts store_id @ '' not found'')),
                           (''store_id'', store_id),
                           (''project_id'', project_id)])),
                        [info, ShopLookup env store_id])
                  else if getProp shop ''status'' = JStr ''closed''
                  then (Some (Inr (JObj
                          [(''has_access'', JBool False),
                           (''message'', JStr (''Store '' @ js_String ts store_id @ '' is closed'')),
                           (''store_id'', store_id),
                           (''project_id'', project_id)])),
                        [info, ShopLookup env store_id])
                  else (Some (Inr (JObj
                          [(''has_access'', JBool True),
                           (''message'', JStr ''Access granted''),
                           (''store_id'', store_id),
                           (''project_id'', project_id)])),
                        [info, ShopLookup env store_id]))"

section \<open>GetStoreInfo\<close>

definition getStoreInfo :: "world \<Rightarrow> call \<Rightarrow> reply option \<times> event list" where
  "getStoreInfo w c =
     (let project_id = getProp (JObj (request c)) ''project_id'';
          store_id = getProp (JObj (request c)) ''store_id''
      in if \<not> truthy project_id \<or> \<not> truthy store_id
         then (Some (Inl \<lparr>code = INVALID_ARGUMENT,
                          message = ''project_id and store_id are required''\<rparr>), [])
         else
           let ts = number_toString w;
               env = getEnvironmentFromMetadata c;
               info = LogInfo (''Getting store info: project_id='' @ js_String ts project_id
                        @ '', store_id='' @ js_String ts store_id @ '', env='' @ env)
           in case getShopById w env store_id of
                Throws error \<Rightarrow>
                  (catch_callback ts error,
                   [info, ShopLookup env store_id, LogError ''Error getting store info:'' error])
              | Returns shop \<Rightarrow>
                  if \<not> truthy shop
                  then (Some (Inr (JObj
                          [(''exists'', JBool False),
                           (''store_id'', store_id),
                           (''name'', JStr ''''),
                           (''environment'', JStr env),
                           (''project_id'', project_id),
                           (''metadata'', JObj []),
                           (''updated_at'', JNum (Finite 0))])),
                        [info, ShopLookup env store_id])
                  else
                    let metadata = JObj
                          [(''status'', js_or (getProp shop ''status'') (JStr '''')),
                           (''address'', js_or (getProp shop ''address'') (JStr '''')),
                           (''contact_no'', js_or (getProp shop ''contact_no'') (JStr '''')),
                           (''shop_admin_email'', js_or (getProp shop ''shop_admin_email'') (JStr '''')),
                           (''shopType'', js_or (getProp shop ''shopType'') (JStr ''store''))];
                        updatedAt =
                          (if truthy (getProp shop ''updated_at'')
                           then floor_seconds (date_getTime w (getProp shop ''updated_at''))
                           else floor_seconds (Some (now w)))
                    in (Some (Inr (JObj
                          [(''exists'', JBool True),
                           (''store_id'', js_or (getProp shop ''id'') store_id),
                           (''name'', js_or (getProp shop ''name'') (JStr '''')),
                           (''environment'', JStr env),
                           (''project_id'', project_id),
                           (''metadata'', metadata),
                           (''updated_at'', updatedAt)])),
                        [info, ShopLookup env store_id]))"

section \<open>GetProductByStripeCode\<close>

text \<open>
  The value stored for a key of the product's free-form metadata:
  \<^verbatim>\<open>typeof value === 'object' ? JSON.stringify(value) : String(value)\<close>.
\<close>

definition metadata_value :: "(rat \<Rightarrow> string) \<Rightarrow> jsval \<Rightarrow> jsval" where
  "metadata_value ts v =
     (if typeof v = ''object'' then JSON_stringify ts v else JStr (js_String ts v))"

text \<open>
  The assignment \<^verbatim>\<open>metadata[key] = s\<close> of a string to a computed key of the plain
  object \<^verbatim>\<open>metadata\<close>: it replaces the value of a key the object has and appends a new key
  otherwise. The key \<^verbatim>\<open>__proto__\<close> is the exception: the assignment reaches the setter the
  object inherits, which ignores a string, and the object gets no property.
\<close>

definition assign_key :: "string \<Rightarrow> jsval \<Rightarrow> (string \<times> jsval) list \<Rightarrow> (string \<times> jsval) list" where
  "assign_key key s obj = (if key = ''__proto__'' then obj else AList.update key s obj)"

text \<open>
  The loop over \<^verbatim>\<open>Object.entries(product.metadata)\<close>. The list keeps the keys in the
  order of their first assignment; the statements below read the map by key.
\<close>

fun metadata_loop ::
  "(rat \<Rightarrow> string) \<Rightarrow> (string \<times> jsval) list \<Rightarrow> (string \<times> jsval) list \<Rightarrow> (string \<times> jsval) list" where
  "metadata_loop ts [] md = md"
| "metadata_loop ts ((key, v) # rest) md =
     metadata_loop ts rest (assign_key key (metadata_value ts v) md)"

text \<open>
  The metadata object of a found product (lines 295 to 311 of the handler): the loop over
  the free-form metadata, then the three fixed names.
\<close>

definition buildMetadata :: "(rat \<Rightarrow> string) \<Rightarrow> jsval \<Rightarrow> (string \<times> jsval) list" where
  "buildMetadata ts product =
     (let md = [];
          md = (if truthy (getProp product ''metadata'') \<and> typeof (getProp product ''metadata'') = ''object''
                then metadata_loop ts (Object_entries (getProp product ''metadata'')) md else md);
          md = (if truthy (getProp product ''units'')
                then AList.update ''units'' (JStr (js_String ts (getProp product ''units''))) md else md);
          md = (if getProp product ''isVending'' \<noteq> JUndefined
                then AList.update ''isVending'' (JStr (js_String ts (getProp product ''isVending''))) md
                else md);
          md = (if getProp product ''availableItems'' \<noteq> JUndefined
                then AList.update ''availableItems''
                       (JStr (js_String ts (getProp product ''availableItems''))) md
                else md)
      in md)"

text \<open>The response of both not-found branches.\<close>

definition product_not_found :: "jsval \<Rightarrow> jsval \<Rightarrow> jsval" where
  "product_not_found stripe_code store_id =
     JObj [(''exists'', JBool False),
           (''stripe_code'', stripe_code),
           (''title'', JStr ''''),
           (''category'', JStr ''''),
           (''picture'', JStr ''''),
           (''price'', JNum (Finite 0)),
           (''purchase_price'', JNum (Finite 0)),
           (''shop_id'', store_id),
           (''_id'', JStr ''''),
           (''metadata'', JObj [])]"

definition getProductByStripeCode :: "world \<Rightarrow> call \<Rightarrow> reply option \<times> event list" where
  "getProductByStripeCode w c =
     (let project_id = getProp (JObj (request c)) ''project_id'';
          store_id = getProp (JObj (request c)) ''store_id'';
          stripe_code = getProp (JObj (request c)) ''stripe_code''
      in if \<not> truthy project_id \<or> \<not> truthy store_id \<or> \<not> truthy stripe_code
         then (Some (Inl \<lparr>code = INVALID_ARGUMENT,
                          message = ''project_id, store_id, and stripe_code are required''\<rparr>), [])
         else
           let ts = number_toString w;
               env = getEnvironmentFromMetadata c;
               info = LogInfo (''Getting product by stripe code: project_id='' @ js_String ts project_id
                        @ '', store_id='' @ js_String ts store_id
                        @ '', stripe_code='' @ js_String ts stripe_code @ '', env='' @ env);
               failed = LogError ''Error getting product by stripe code:''
           in case getShopById w env store_id of
                Throws error \<Rightarrow>
                  (catch_callback ts error, [info, ShopLookup env store_id, failed error])
              | Returns shop \<Rightarrow>
                  if \<not> truthy shop
                  then (Some (Inr (product_not_found stripe_code store_id)),
                        [info, ShopLookup env store_id])
                  else
                    (case getProductById2 w env store_id stripe_code of
                      Throws error \<Rightarrow>
                        (catch_callback ts error,
                         [info, ShopLookup env store_id, ProductLookup env store_id stripe_code,
                          failed error])
                    | Returns product \<Rightarrow>
                        if \<not> truthy product
                        then (Some (Inr (product_not_found stripe_code store_id)),
                              [info, ShopLookup env store_id, ProductLookup env store_id stripe_code,
                               LogInfo (''Product not found: stripe_code='' @ js_String ts stripe_code
                                 @ '', store_id='' @ js_String ts store_id @ '', env='' @ env)])
                        else
                          (Some (Inr (JObj
                             [(''exists'', JBool True),
                              (''stripe_code'', js_or (getProp product ''stripeCode'') stripe_code),
                              (''title'', js_or (getProp product ''title'') (JStr '''')),
                              (''category'', js_or (getProp product ''category'') (JStr '''')),
                              (''picture'', js_or (getProp product ''picture'') (JStr '''')),
                              (''price'', js_or (getProp product ''price'') (JNum (Finite 0))),
                              (''purchase_price'',
                                 js_or (getProp product ''purchasePrice'') (JNum (Finite 0))),
                              (''shop_id'', js_or (getProp product ''shopId'') store_id),
                              (''_id'', js_or (js_or (getProp product ''_id'') (getProp product ''id''))
                                          (JStr '''')),
                              (''metadata'', JObj (buildMetadata ts product))])),
                           [info, ShopLookup env store_id, ProductLookup env store_id stripe_code])))"

section \<open>Notions used in the statements\<close>

text \<open>A request field that is absent, or present as the empty string.\<close>

definition absent_or_empty :: "jsval \<Rightarrow> bool" where
  "absent_or_empty v = (v = JUndefined \<or> v = JStr '''')"

text \<open>
  The header value the resolution works on: the first value under \<^verbatim>\<open>env\<close>, and the first
  value under \<^verbatim>\<open>x-environment\<close> when there is no value under \<^verbatim>\<open>env\<close>.
\<close>

definition selected_header :: "call \<Rightarrow> string option" where
  "selected_header c =
     first_value (if no_values (metadata c ''env'') then metadata c ''x-environment''
                  else metadata c ''env'')"

text \<open>The queries of the product catalogue among the events of a call.\<close>

fun is_product_lookup :: "event \<Rightarrow> bool" where
  "is_product_lookup (ProductLookup env store_id stripe_code) = True"
| "is_product_lookup e = False"

subsection \<open>Test doubles\<close>

text \<open>Call metadata without any entry.\<close>

definition no_metadata :: metadata where
  "no_metadata k = None"

text \<open>
  A store directory that has no record, one that holds a record, one that throws an error
  with the given message, and one that throws the given value.
\<close>

definition shop_missing :: "string \<Rightarrow> jsval \<Rightarrow> outcome" where
  "shop_missing env store_id = Returns JNull"

definition shop_found :: "jsval \<Rightarrow> string \<Rightarrow> jsval \<Rightarrow> outcome" where
  "shop_found shop env store_id = Returns shop"

definition shop_fails :: "string \<Rightarrow> string \<Rightarrow> jsval \<Rightarrow> outcome" where
  "shop_fails text env store_id = Throws (JObj [(''message'', JStr text)])"


text \<open>The same for the product catalogue.\<close>

definition product_missing :: "string \<Rightarrow> jsval \<Rightarrow> jsval \<Rightarrow> outcome" where
  "product_missing env store_id stripe_code = Returns JNull"


definition product_fails :: "string \<Rightarrow> string \<Rightarrow> jsval \<Rightarrow> jsval \<Rightarrow> outcome" where
  "product_fails text env store_id stripe_code = Throws (JObj [(''message'', JStr text)])"

text \<open>The date conversion on a number of milliseconds.\<close>

fun epoch_ms :: "jsval \<Rightarrow> int option" where
  "epoch_ms (JNum (Finite q)) = Some \<lfloor>q\<rfloor>"
| "epoch_ms v = None"

text \<open>
  A text for the numbers that are not safe integers, for the calls in which none is
  printed, and the text of five halves.
\<close>

definition no_text :: "rat \<Rightarrow> string" where
  "no_text q = ''''"


subsection \<open>Replies and product metadata\<close>

text \<open>A field of the response a handler called back with; an error has none.\<close>

fun reply_field :: "reply option \<Rightarrow> string \<Rightarrow> jsval" where
  "reply_field (Some (Inr v)) k = getProp v k"
| "reply_field r k = JUndefined"


text \<open>A reply with the field \<^verbatim>\<open>updated_at\<close> of its response removed.\<close>

fun without_updated_at :: "reply option \<Rightarrow> reply option" where
  "without_updated_at (Some (Inr (JObj kvs))) = Some (Inr (JObj (AList.delete ''updated_at'' kvs)))"
| "without_updated_at r = r"

text \<open>
  The calls of GetStoreInfo that reach \<^verbatim>\<open>Date.now()\<close>: a valid request, a store record
  found, and no truthy \<^verbatim>\<open>updated_at\<close> on it.
\<close>

definition reads_clock :: "world \<Rightarrow> call \<Rightarrow> bool" where
  "reads_clock w c =
     (truthy (getProp (JObj (request c)) ''project_id'')
      \<and> truthy (getProp (JObj (request c)) ''store_id'')
      \<and> (case getShopById w (getEnvironmentFromMetadata c) (getProp (JObj (request c)) ''store_id'') of
            Throws error \<Rightarrow> False
          | Returns shop \<Rightarrow> truthy shop \<and> \<not> truthy (getProp shop ''updated_at'')))"



section \<open>Validation\<close>

lemma absent_or_empty_falsy: "absent_or_empty v \<Longrightarrow> \<not> truthy v"
  by (auto simp: absent_or_empty_def)

lemma verifyStoreAccess_invalid:
  "\<not> truthy (getProp (JObj (request c)) ''project_id'')
     \<or> \<not> truthy (getProp (JObj (request c)) ''store_id'')
   \<Longrightarrow> verifyStoreAccess w c =
       (Some (Inl \<lparr>code = INVALID_ARGUMENT, message = ''project_id and store_id are required''\<rparr>), [])"
  unfolding verifyStoreAccess_def Let_def by (simp only: if_True)

lemma getStoreInfo_invalid:
  "\<not> truthy (getProp (JObj (request c)) ''project_id'')
     \<or> \<not> truthy (getProp (JObj (request c)) ''store_id'')
   \<Longrightarrow> getStoreInfo w c =
       (Some (Inl \<lparr>code = INVALID_ARGUMENT, message = ''project_id and store_id are required''\<rparr>), [])"
  unfolding getStoreInfo_def Let_def by (simp only: if_True)

lemma getProductByStripeCode_invalid:
  "\<not> truthy (getProp (JObj (request c)) ''project_id'')
     \<or> \<not> truthy (getProp (JObj (request c)) ''store_id'')
     \<or> \<not> truthy (getProp (JObj (request c)) ''stripe_code'')
   \<Longrightarrow> getProductByStripeCode w c =
       (Some (Inl \<lparr>code = INVALID_ARGUMENT,
             message = ''project_id, store_id, and stripe_code are required''\<rparr>), [])"
  unfolding getProductByStripeCode_def Let_def by (simp only: if_True)

text \<open>
  Claim C1. When \<^verbatim>\<open>project_id\<close> or \<^verbatim>\<open>store_id\<close> is absent or the empty string,
  VerifyStoreAccess and GetStoreInfo call back with InvalidArgument and the message
  \<^verbatim>\<open>project_id and store_id are required\<close>; when one of the three fields of
  GetProductByStripeCode is, it calls back with InvalidArgument. In each case the handler
  causes no event at all: neither the store directory nor the product catalogue is queried.
\<close>

theorem C1_missing_identifier_is_invalid_argument:
  "(absent_or_empty (getProp (JObj (request c)) ''project_id'')
      \<or> absent_or_empty (getProp (JObj (request c)) ''store_id'')
    \<longrightarrow> verifyStoreAccess w c =
          (Some (Inl \<lparr>code = INVALID_ARGUMENT, message = ''project_id and store_id are required''\<rparr>), [])
      \<and> getStoreInfo w c =
          (Some (Inl \<lparr>code = INVALID_ARGUMENT, message = ''project_id and store_id are required''\<rparr>), []))
   \<and> (absent_or_empty (getProp (JObj (request c)) ''project_id'')
        \<or> absent_or_empty (getProp (JObj (request c)) ''store_id'')
        \<or> absent_or_empty (getProp (JObj (request c)) ''stripe_code'')
      \<longrightarrow> getProductByStripeCode w c =
            (Some (Inl \<lparr>code = INVALID_ARGUMENT,
                  message = ''project_id, store_id, and stripe_code are required''\<rparr>), []))"
  using verifyStoreAccess_invalid [of c w] getStoreInfo_invalid [of c w]
    getProductByStripeCode_invalid [of c w] absent_or_empty_falsy
  by blast

text \<open>
  A request without \<^verbatim>\<open>project_id\<close> and with an empty \<^verbatim>\<open>stripe_code\<close>, against a store
  directory that would throw if it were asked.
\<close>

theorem C1_witness:
  "absent_or_empty (getProp (JObj (request
       \<lparr>request = [(''store_id'', JStr ''s1''), (''stripe_code'', JStr '''')],
         metadata = no_metadata\<rparr>)) ''project_id'')
   \<and> verifyStoreAccess
       \<lparr>getShopById = shop_fails ''down'', getProductById2 = product_missing,
         date_getTime = epoch_ms, number_toString = no_text, now = 0\<rparr>
       \<lparr>request = [(''store_id'', JStr ''s1''), (''stripe_code'', JStr '''')],
         metadata = no_metadata\<rparr>
     = (Some (Inl \<lparr>code = INVALID_ARGUMENT, message = ''project_id and store_id are required''\<rparr>), [])
   \<and> snd (getProductByStripeCode
       \<lparr>getShopById = shop_fails ''down'', getProductById2 = product_missing,
         date_getTime = epoch_ms, number_toString = no_text, now = 0\<rparr>
       \<lparr>request = [(''store_id'', JStr ''s1''), (''stripe_code'', JStr '''')],
         metadata = no_metadata\<rparr>)
     = []"
  using C1_missing_identifier_is_invalid_argument
    [of "\<lparr>request = [(''store_id'', JStr ''s1''), (''stripe_code'', JStr '''')],
           metadata = no_metadata\<rparr>"
        "\<lparr>getShopById = shop_fails ''down'', getProductById2 = product_missing,
           date_getTime = epoch_ms, number_toString = no_text, now = 0\<rparr>"]
  by (simp add: absent_or_empty_def)

section \<open>Environment resolution: properties\<close>

lemma getEnvironmentFromMetadata_selected:
  "getEnvironmentFromMetadata c = spec_normalize (selected_header c)"
  by (auto simp: getEnvironmentFromMetadata_def selected_header_def spec_normalize_def Let_def
      split: option.splits)

lemma no_values_first_value: "no_values r \<longleftrightarrow> first_value r = None"
  by (cases r rule: first_value.cases) simp_all

text \<open>
  Claim C2, as stated, fails: with \<^verbatim>\<open>env\<close> present and empty and
  \<^verbatim>\<open>x-environment=prod\<close>, the handler does not fall back (the test is on the number of
  values under \<^verbatim>\<open>env\<close>, not on the value) and resolves to \<^verbatim>\<open>demo\<close>, where the
  resolution as the claim words it gives \<^verbatim>\<open>prod\<close>.
\<close>

theorem C2_counterexample:
  "getEnvironmentFromMetadata
     \<lparr>request = [],
       metadata = no_metadata(''env'' \<mapsto> [''''], ''x-environment'' \<mapsto> [''prod''])\<rparr> = ''demo''
   \<and> spec_resolveEnvironment
       (no_metadata(''env'' \<mapsto> [''''], ''x-environment'' \<mapsto> [''prod''])) = ''prod''"
  by (simp add: getEnvironmentFromMetadata_def spec_resolveEnvironment_def spec_normalize_def)

text \<open>
  Claim C2, amended. The resolution reads \<^verbatim>\<open>env\<close> first and falls back to
  \<^verbatim>\<open>x-environment\<close> exactly when there is no value under \<^verbatim>\<open>env\<close>; an \<^verbatim>\<open>env\<close> entry
  whose first value is the empty string is kept and resolves to \<^verbatim>\<open>demo\<close>. The first value
  of the selected entry passes through when it is \<^verbatim>\<open>prod\<close> or \<^verbatim>\<open>master\<close>, compared
  case-sensitively, and everything else, no value included, is \<^verbatim>\<open>demo\<close>. Whenever the
  first value under \<^verbatim>\<open>env\<close> is not the empty string the handler agrees with the resolution
  as the specification words it. The four examples of the claim hold.
\<close>

theorem C2_environment_resolution:
  "(no_values (metadata c ''env'')
      \<longrightarrow> selected_header c = first_value (metadata c ''x-environment''))
   \<and> (\<not> no_values (metadata c ''env'')
      \<longrightarrow> selected_header c = first_value (metadata c ''env''))
   \<and> (selected_header c = Some ''prod'' \<longrightarrow> getEnvironmentFromMetadata c = ''prod'')
   \<and> (selected_header c = Some ''master'' \<longrightarrow> getEnvironmentFromMetadata c = ''master'')
   \<and> (selected_header c \<noteq> Some ''prod'' \<and> selected_header c \<noteq> Some ''master''
      \<longrightarrow> getEnvironmentFromMetadata c = ''demo'')
   \<and> (first_value (metadata c ''env'') = Some '''' \<longrightarrow> getEnvironmentFromMetadata c = ''demo'')
   \<and> (first_value (metadata c ''env'') \<noteq> Some ''''
      \<longrightarrow> getEnvironmentFromMetadata c = spec_resolveEnvironment (metadata c))
   \<and> (metadata c ''env'' = Some [''prod''] \<and> metadata c ''x-environment'' = Some [''demo'']
      \<longrightarrow> getEnvironmentFromMetadata c = ''prod'')
   \<and> (no_values (metadata c ''env'') \<and> metadata c ''x-environment'' = Some [''master'']
      \<longrightarrow> getEnvironmentFromMetadata c = ''master'')
   \<and> (metadata c ''env'' = Some [''bogus''] \<longrightarrow> getEnvironmentFromMetadata c = ''demo'')
   \<and> (metadata c ''env'' = Some [''PROD''] \<longrightarrow> getEnvironmentFromMetadata c = ''demo'')
   \<and> (no_values (metadata c ''env'') \<and> no_values (metadata c ''x-environment'')
      \<longrightarrow> getEnvironmentFromMetadata c = ''demo'')"
  apply (intro conjI impI)
             apply (simp_all add: getEnvironmentFromMetadata_selected)
             apply (auto simp: selected_header_def spec_resolveEnvironment_def spec_normalize_def
      no_values_first_value Let_def)
  done

text \<open>Only the legacy key is set, to \<^verbatim>\<open>master\<close>.\<close>

theorem C2_witness:
  "no_values (metadata
       \<lparr>request = [], metadata = no_metadata(''x-environment'' \<mapsto> [''master''])\<rparr> ''env'')
   \<and> selected_header
       \<lparr>request = [], metadata = no_metadata(''x-environment'' \<mapsto> [''master''])\<rparr> = Some ''master''
   \<and> getEnvironmentFromMetadata
       \<lparr>request = [], metadata = no_metadata(''x-environment'' \<mapsto> [''master''])\<rparr> = ''master''
   \<and> spec_resolveEnvironment (no_metadata(''x-environment'' \<mapsto> [''master''])) = ''master''"
  using C2_environment_resolution
    [of "\<lparr>request = [], metadata = no_metadata(''x-environment'' \<mapsto> [''master''])\<rparr>"]
  by (auto simp: no_metadata_def selected_header_def)

section \<open>Not-found outcomes\<close>

text \<open>
  Claim C3. For a request of GetProductByStripeCode whose three fields are non-empty, when
  the store directory returns no record for the resolved environment and the requested
  store, the handler calls back with success: \<^verbatim>\<open>exists=false\<close>, both prices zero,
  \<^verbatim>\<open>shop_id\<close> and \<^verbatim>\<open>stripe_code\<close> as requested, empty title, category, picture and id,
  an empty metadata map. The product catalogue is not queried: the events are the log entry
  and the store lookup.
\<close>

theorem C3_store_not_found_short_circuits:
  assumes "getProp (JObj (request c)) ''project_id'' = project_id" and "truthy project_id"
    and "getProp (JObj (request c)) ''store_id'' = store_id" and "truthy store_id"
    and "getProp (JObj (request c)) ''stripe_code'' = stripe_code" and "truthy stripe_code"
    and "getEnvironmentFromMetadata c = env"
    and "getShopById w env store_id = Returns shop" and "\<not> truthy shop"
  shows "fst (getProductByStripeCode w c) =
           Some (Inr (JObj [(''exists'', JBool False),
                      (''stripe_code'', stripe_code),
                      (''title'', JStr ''''),
                      (''category'', JStr ''''),
                      (''picture'', JStr ''''),
                      (''price'', JNum (Finite 0)),
                      (''purchase_price'', JNum (Finite 0)),
                      (''shop_id'', store_id),
                      (''_id'', JStr ''''),
                      (''metadata'', JObj [])]))
         \<and> filter is_product_lookup (snd (getProductByStripeCode w c)) = []
         \<and> tl (snd (getProductByStripeCode w c)) = [ShopLookup env store_id]"
  using assms by (simp add: getProductByStripeCode_def product_not_found_def Let_def)

text \<open>No store, and a product catalogue that would throw if it were asked.\<close>

theorem C3_witness:
  "getShopById
     \<lparr>getShopById = shop_missing, getProductById2 = product_fails ''unreachable'',
       date_getTime = epoch_ms, number_toString = no_text, now = 0\<rparr> ''demo'' (JStr ''s1'') = Returns JNull
   \<and> getProductByStripeCode
       \<lparr>getShopById = shop_missing, getProductById2 = product_fails ''unreachable'',
         date_getTime = epoch_ms, number_toString = no_text, now = 0\<rparr>
       \<lparr>request = [(''project_id'', JStr ''p1''), (''store_id'', JStr ''s1''),
                    (''stripe_code'', JStr ''c1'')],
         metadata = no_metadata\<rparr> =
     (Some (Inr (JObj [(''exists'', JBool False),
                 (''stripe_code'', JStr ''c1''),
                 (''title'', JStr ''''),
                 (''category'', JStr ''''),
                 (''picture'', JStr ''''),
                 (''price'', JNum (Finite 0)),
                 (''purchase_price'', JNum (Finite 0)),
                 (''shop_id'', JStr ''s1''),
                 (''_id'', JStr ''''),
                 (''metadata'', JObj [])])),
      [LogInfo ''Getting product by stripe code: project_id=p1, store_id=s1, stripe_code=c1, env=demo'',
       ShopLookup ''demo'' (JStr ''s1'')])"
  using C3_store_not_found_short_circuits
    [of "\<lparr>request = [(''project_id'', JStr ''p1''), (''store_id'', JStr ''s1''),
                      (''stripe_code'', JStr ''c1'')],
           metadata = no_metadata\<rparr>"
        "JStr ''p1''" "JStr ''s1''" "JStr ''c1''" "''demo''"
        "\<lparr>getShopById = shop_missing, getProductById2 = product_fails ''unreachable'',
           date_getTime = epoch_ms, number_toString = no_text, now = 0\<rparr>" JNull]
  by (simp add: shop_missing_def no_metadata_def getEnvironmentFromMetadata_def
      getProductByStripeCode_def product_not_found_def Let_def)

text \<open>
  Claim C5. For a request of VerifyStoreAccess whose two fields are non-empty and a store
  lookup that returns: without a record the result is \<^verbatim>\<open>has_access=false\<close> with the message
  \<^verbatim>\<open>Store {store_id} not found\<close>; with a record whose status is \<^verbatim>\<open>closed\<close> it is
  \<^verbatim>\<open>has_access=false\<close> with \<^verbatim>\<open>Store {store_id} is closed\<close>; with any other record it is
  \<^verbatim>\<open>has_access=true\<close> with \<^verbatim>\<open>Access granted\<close>. All three are successes and echo
  \<^verbatim>\<open>store_id\<close> and \<^verbatim>\<open>project_id\<close>; the text inserted for a string is the string itself.
\<close>

theorem C5_verify_store_access_outcomes:
  assumes "getProp (JObj (request c)) ''project_id'' = project_id" and "truthy project_id"
    and "getProp (JObj (request c)) ''store_id'' = store_id" and "truthy store_id"
    and "getShopById w (getEnvironmentFromMetadata c) store_id = Returns shop"
  shows "(\<not> truthy shop \<longrightarrow>
            fst (verifyStoreAccess w c) =
              Some (Inr (JObj [(''has_access'', JBool False),
                         (''message'', JStr (''Store '' @ js_String (number_toString w) store_id @ '' not found'')),
                         (''store_id'', store_id),
                         (''project_id'', project_id)])))
         \<and> (truthy shop \<and> getProp shop ''status'' = JStr ''closed'' \<longrightarrow>
            fst (verifyStoreAccess w c) =
              Some (Inr (JObj [(''has_access'', JBool False),
                         (''message'', JStr (''Store '' @ js_String (number_toString w) store_id @ '' is closed'')),
                         (''store_id'', store_id),
                         (''project_id'', project_id)])))
         \<and> (truthy shop \<and> getProp shop ''status'' \<noteq> JStr ''closed'' \<longrightarrow>
            fst (verifyStoreAccess w c) =
              Some (Inr (JObj [(''has_access'', JBool True),
                         (''message'', JStr ''Access granted''),
                         (''store_id'', store_id),
                         (''project_id'', project_id)])))
         \<and> (store_id = JStr s \<longrightarrow> js_String (number_toString w) store_id = s)"
  using assms by (auto simp: verifyStoreAccess_def Let_def)

text \<open>A closed store.\<close>

theorem C5_witness:
  "truthy (JObj [(''status'', JStr ''closed'')])
   \<and> fst (verifyStoreAccess
       \<lparr>getShopById = shop_found (JObj [(''status'', JStr ''closed'')]),
         getProductById2 = product_missing, date_getTime = epoch_ms, number_toString = no_text, now = 0\<rparr>
       \<lparr>request = [(''project_id'', JStr ''p1''), (''store_id'', JStr ''s1'')],
         metadata = no_metadata\<rparr>) =
     Some (Inr (JObj [(''has_access'', JBool False),
                (''message'', JStr ''Store s1 is closed''),
                (''store_id'', JStr ''s1''),
                (''project_id'', JStr ''p1'')]))"
  using C5_verify_store_access_outcomes
    [of "\<lparr>request = [(''project_id'', JStr ''p1''), (''store_id'', JStr ''s1'')],
           metadata = no_metadata\<rparr>"
        "JStr ''p1''" "JStr ''s1''"
        "\<lparr>getShopById = shop_found (JObj [(''status'', JStr ''closed'')]),
           getProductById2 = product_missing, date_getTime = epoch_ms, number_toString = no_text, now = 0\<rparr>"
        "JObj [(''status'', JStr ''closed'')]" "''s1''"]
  by (simp add: shop_found_def)

text \<open>
  Claim C6. For a request of GetStoreInfo whose two fields are non-empty, when the store
  directory returns no record the handler calls back with success: \<^verbatim>\<open>exists=false\<close>, an
  empty name, the resolved environment, an empty metadata map, \<^verbatim>\<open>updated_at=0\<close>, and
  \<^verbatim>\<open>store_id\<close> and \<^verbatim>\<open>project_id\<close> as requested.
\<close>

theorem C6_store_info_not_found:
  assumes "getProp (JObj (request c)) ''project_id'' = project_id" and "truthy project_id"
    and "getProp (JObj (request c)) ''store_id'' = store_id" and "truthy store_id"
    and "getShopById w (getEnvironmentFromMetadata c) store_id = Returns shop" and "\<not> truthy shop"
  shows "fst (getStoreInfo w c) =
           Some (Inr (JObj [(''exists'', JBool False),
                      (''store_id'', store_id),
                      (''name'', JStr ''''),
                      (''environment'', JStr (getEnvironmentFromMetadata c)),
                      (''project_id'', project_id),
                      (''metadata'', JObj []),
                      (''updated_at'', JNum (Finite 0))]))"
  using assms by (simp add: getStoreInfo_def Let_def)

text \<open>No store in the environment \<^verbatim>\<open>prod\<close>.\<close>

theorem C6_witness:
  "\<not> truthy JNull
   \<and> fst (getStoreInfo
       \<lparr>getShopById = shop_missing, getProductById2 = product_missing,
         date_getTime = epoch_ms, number_toString = no_text, now = 1700000000000\<rparr>
       \<lparr>request = [(''project_id'', JStr ''p1''), (''store_id'', JStr ''s1'')],
         metadata = no_metadata(''env'' \<mapsto> [''prod''])\<rparr>) =
     Some (Inr (JObj [(''exists'', JBool False),
                (''store_id'', JStr ''s1''),
                (''name'', JStr ''''),
                (''environment'', JStr ''prod''),
                (''project_id'', JStr ''p1''),
                (''metadata'', JObj []),
                (''updated_at'', JNum (Finite 0))]))"
  using C6_store_info_not_found
    [of "\<lparr>request = [(''project_id'', JStr ''p1''), (''store_id'', JStr ''s1'')],
           metadata = no_metadata(''env'' \<mapsto> [''prod''])\<rparr>"
        "JStr ''p1''" "JStr ''s1''"
        "\<lparr>getShopById = shop_missing, getProductById2 = product_missing,
           date_getTime = epoch_ms, number_toString = no_text, now = 1700000000000\<rparr>" JNull]
  by (simp add: shop_missing_def getEnvironmentFromMetadata_def)

section \<open>Collaborator failures\<close>






section \<open>The clock\<close>

lemma verifyStoreAccess_clock: "verifyStoreAccess (w\<lparr>now := t\<rparr>) c = verifyStoreAccess w c"
  by (simp add: verifyStoreAccess_def Let_def split: outcome.splits)

lemma getProductByStripeCode_clock:
  "getProductByStripeCode (w\<lparr>now := t\<rparr>) c = getProductByStripeCode w c"
  by (simp add: getProductByStripeCode_def Let_def split: outcome.splits)

lemma reads_clock_clock: "reads_clock (w\<lparr>now := t\<rparr>) c = reads_clock w c"
  by (simp add: reads_clock_def)

lemma getStoreInfo_clock_unread:
  "\<not> reads_clock w c \<Longrightarrow> getStoreInfo (w\<lparr>now := t\<rparr>) c = getStoreInfo w c"
  by (auto simp: getStoreInfo_def reads_clock_def Let_def split: outcome.splits)

lemma getStoreInfo_clock_same_second:
  "t div 1000 = now w div 1000 \<Longrightarrow> getStoreInfo (w\<lparr>now := t\<rparr>) c = getStoreInfo w c"
  by (auto simp: getStoreInfo_def Let_def split: outcome.splits)

lemma getStoreInfo_clock_other_fields:
  "without_updated_at (fst (getStoreInfo (w\<lparr>now := t\<rparr>) c)) = without_updated_at (fst (getStoreInfo w c))"
  by (auto simp: getStoreInfo_def Let_def split: outcome.splits)

lemma getStoreInfo_clock_events:
  "snd (getStoreInfo (w\<lparr>now := t\<rparr>) c) = snd (getStoreInfo w c)"
  by (auto simp: getStoreInfo_def Let_def split: outcome.splits)

lemma getStoreInfo_clock_read:
  "reads_clock w c \<Longrightarrow> reply_field (fst (getStoreInfo w c)) ''updated_at'' = JNum (Finite (of_int (now w div 1000)))"
  by (auto simp: getStoreInfo_def reads_clock_def Let_def split: outcome.splits)

text \<open>
  Claim C9, as stated, fails for GetStoreInfo on a found record without a last-updated
  timestamp: the same request against the same store directory, one second later, gets
  another \<^verbatim>\<open>updated_at\<close>.
\<close>

theorem C9_counterexample:
  "reply_field (fst (getStoreInfo
       \<lparr>getShopById = shop_found (JObj [(''id'', JStr ''s1''), (''name'', JStr ''Kiosk'')]),
         getProductById2 = product_missing, date_getTime = epoch_ms, number_toString = no_text, now = 1000\<rparr>
       \<lparr>request = [(''project_id'', JStr ''p1''), (''store_id'', JStr ''s1'')],
         metadata = no_metadata\<rparr>)) ''updated_at'' = JNum (Finite 1)
   \<and> reply_field (fst (getStoreInfo
       \<lparr>getShopById = shop_found (JObj [(''id'', JStr ''s1''), (''name'', JStr ''Kiosk'')]),
         getProductById2 = product_missing, date_getTime = epoch_ms, number_toString = no_text, now = 2000\<rparr>
       \<lparr>request = [(''project_id'', JStr ''p1''), (''store_id'', JStr ''s1'')],
         metadata = no_metadata\<rparr>)) ''updated_at'' = JNum (Finite 2)
   \<and> fst (getStoreInfo
       \<lparr>getShopById = shop_found (JObj [(''id'', JStr ''s1''), (''name'', JStr ''Kiosk'')]),
         getProductById2 = product_missing, date_getTime = epoch_ms, number_toString = no_text, now = 1000\<rparr>
       \<lparr>request = [(''project_id'', JStr ''p1''), (''store_id'', JStr ''s1'')],
         metadata = no_metadata\<rparr>)
     \<noteq> fst (getStoreInfo
       \<lparr>getShopById = shop_found (JObj [(''id'', JStr ''s1''), (''name'', JStr ''Kiosk'')]),
         getProductById2 = product_missing, date_getTime = epoch_ms, number_toString = no_text, now = 2000\<rparr>
       \<lparr>request = [(''project_id'', JStr ''p1''), (''store_id'', JStr ''s1'')],
         metadata = no_metadata\<rparr>)"
  by (simp add: getStoreInfo_def shop_found_def Let_def js_or_def)

text \<open>
  Claim C9, amended. A later identical call differs from the first one in the clock only.
  VerifyStoreAccess and GetProductByStripeCode do not depend on the clock: response and
  events are functions of request, metadata and collaborator results. So is GetStoreInfo
  unless a record is found that has no truthy \<^verbatim>\<open>updated_at\<close>; in that case
  \<^verbatim>\<open>updated_at\<close> is the clock in whole seconds, every other field of the response and the
  events are the same, and two calls within the same clock second return identical
  responses.
\<close>

theorem C9_determinism_up_to_clock:
  "verifyStoreAccess (w\<lparr>now := t\<rparr>) c = verifyStoreAccess w c
   \<and> getProductByStripeCode (w\<lparr>now := t\<rparr>) c = getProductByStripeCode w c
   \<and> (\<not> reads_clock w c \<longrightarrow> getStoreInfo (w\<lparr>now := t\<rparr>) c = getStoreInfo w c)
   \<and> (t div 1000 = now w div 1000 \<longrightarrow> getStoreInfo (w\<lparr>now := t\<rparr>) c = getStoreInfo w c)
   \<and> without_updated_at (fst (getStoreInfo (w\<lparr>now := t\<rparr>) c))
       = without_updated_at (fst (getStoreInfo w c))
   \<and> snd (getStoreInfo (w\<lparr>now := t\<rparr>) c) = snd (getStoreInfo w c)
   \<and> (reads_clock w c \<longrightarrow>
        reply_field (fst (getStoreInfo w c)) ''updated_at'' = JNum (Finite (of_int (now w div 1000)))
        \<and> reply_field (fst (getStoreInfo (w\<lparr>now := t\<rparr>) c)) ''updated_at'' = JNum (Finite (of_int (t div 1000))))"
  by (simp add: verifyStoreAccess_clock getProductByStripeCode_clock getStoreInfo_clock_unread
      getStoreInfo_clock_same_second getStoreInfo_clock_other_fields getStoreInfo_clock_events
      getStoreInfo_clock_read reads_clock_clock)

text \<open>
  A record that carries its timestamp: the clock is not read, and the call a second later
  returns the same.
\<close>

theorem C9_witness:
  "\<not> reads_clock
       \<lparr>getShopById = shop_found (JObj [(''id'', JStr ''s1''), (''updated_at'', JNum (Finite 1700000000999))]),
         getProductById2 = product_missing, date_getTime = epoch_ms, number_toString = no_text, now = 1000\<rparr>
       \<lparr>request = [(''project_id'', JStr ''p1''), (''store_id'', JStr ''s1'')],
         metadata = no_metadata\<rparr>
   \<and> getStoreInfo
       \<lparr>getShopById = shop_found (JObj [(''id'', JStr ''s1''), (''updated_at'', JNum (Finite 1700000000999))]),
         getProductById2 = product_missing, date_getTime = epoch_ms, number_toString = no_text, now = 2000\<rparr>
       \<lparr>request = [(''project_id'', JStr ''p1''), (''store_id'', JStr ''s1'')],
         metadata = no_metadata\<rparr>
     = getStoreInfo
       \<lparr>getShopById = shop_found (JObj [(''id'', JStr ''s1''), (''updated_at'', JNum (Finite 1700000000999))]),
         getProductById2 = product_missing, date_getTime = epoch_ms, number_toString = no_text, now = 1000\<rparr>
       \<lparr>request = [(''project_id'', JStr ''p1''), (''store_id'', JStr ''s1'')],
         metadata = no_metadata\<rparr>"
  using C9_determinism_up_to_clock
    [where w = "\<lparr>getShopById = shop_found (JObj [(''id'', JStr ''s1''), (''updated_at'', JNum (Finite 1700000000999))]),
           getProductById2 = product_missing, date_getTime = epoch_ms, number_toString = no_text, now = 1000\<rparr>"
       and t = 2000
       and c = "\<lparr>request = [(''project_id'', JStr ''p1''), (''store_id'', JStr ''s1'')],
           metadata = no_metadata\<rparr>"]
  by (simp add: reads_clock_def shop_found_def)

section \<open>A store record found\<close>




section \<open>The metadata map of a product\<close>














end
